theory Spec2Isabelle
  imports Complex_Main "HOL-Library.Sublist" "HOL-Library.Word"
begin

section \<open>JavaScript values used by the dashboard code\<close>

text \<open>
  A JavaScript string is modelled as a HOL \<open>string\<close>: one \<open>char\<close> per code unit, for
  code units below 256. An optional string field (\<open>undefined\<close>, \<open>null\<close> or a string) is a
  \<open>string option\<close>. \<open>truthy\<close> is JavaScript's truth test on such a value: absent and
  the empty string are false, every other string is true.
\<close>

fun truthy :: "string option \<Rightarrow> bool" where
  "truthy None = False"
| "truthy (Some s) = (s \<noteq> [])"

text \<open>\<open>falsy v\<close> is the JavaScript expression \<open>!v\<close>.\<close>

fun falsy :: "string option \<Rightarrow> bool" where
  "falsy None = True"
| "falsy (Some s) = (s = [])"

text \<open>\<open>Array.prototype.join\<close> on an array of strings.\<close>

fun join :: "string \<Rightarrow> string list \<Rightarrow> string" where
  "join sep [] = []"
| "join sep [x] = x"
| "join sep (x # y # ys) = x @ sep @ join sep (y # ys)"

section \<open>Chain resolver (CertificateDetailsClient.tsx)\<close>

text \<open>
  The fields of a CA record and of a certificate record that the chain walk reads. The
  CA's \<open>id\<close> field is \<open>ca_id\<close> here, the certificate's \<open>pemData\<close> is
  \<open>cert_pemData\<close>.
\<close>

record CA =
  ca_id :: string
  issuer :: "string option"
  pemData :: "string option"

record CertificateData =
  cert_pemData :: "string option"
  issuerCaId :: "string option"

text \<open>
  Modelled from the spec: \<open>findCaById\<close> is imported from \<open>@/lib/ca-data\<close>, which is
  not among the source files. The spec says of the walk: "look up the CA with that id in
  \<open>allCas\<close>; if not found, stop", over "a flat list of all known CA records". The
  lookup is therefore the first record of the list whose identifier is the key.
\<close>

definition findCaById :: "string \<Rightarrow> CA list \<Rightarrow> CA option" where
  "findCaById i allCAs = find (\<lambda>ca. ca_id ca = i) allCAs"

definition maxDepth :: nat where
  "maxDepth = 10"

text \<open>
  The test that ends both walks:
  \<open>issuerCa.issuer === 'Self-signed' || !issuerCa.issuer || issuerCa.id === issuerCa.issuer\<close>.
\<close>

definition selfSigned :: "CA \<Rightarrow> bool" where
  "selfSigned ca =
     (issuer ca = Some ''Self-signed'' \<or> falsy (issuer ca) \<or> Some (ca_id ca) = issuer ca)"

text \<open>
  The \<open>while\<close> loop of \<open>certificateChainForVisualizer\<close>. Its state is
  \<open>currentIssuerId\<close>, \<open>safetyNet\<close> and \<open>path\<close>; \<open>path.unshift\<close> puts the
  new record in front.
\<close>

function visualizerLoop :: "CA list \<Rightarrow> string option \<Rightarrow> nat \<Rightarrow> CA list \<Rightarrow> CA list" where
  "visualizerLoop allCAs currentIssuerId safetyNet path =
     (case currentIssuerId of
        None \<Rightarrow> path
      | Some cur \<Rightarrow>
          if truthy (Some cur) \<and> safetyNet < maxDepth then
            (case findCaById cur allCAs of
               None \<Rightarrow> path
             | Some issuerCa \<Rightarrow>
                 if selfSigned issuerCa then issuerCa # path
                 else visualizerLoop allCAs (issuer issuerCa) (safetyNet + 1) (issuerCa # path))
          else path)"
  by pat_completeness auto
termination
  by (relation "measure (\<lambda>(allCAs, cur, safetyNet, path). maxDepth - safetyNet)") auto

definition certificateChainForVisualizer :: "CertificateData option \<Rightarrow> CA list \<Rightarrow> CA list" where
  "certificateChainForVisualizer certificateDetails allCAs =
     (case certificateDetails of
        None \<Rightarrow> []
      | Some cert \<Rightarrow>
          if allCAs = [] then [] else visualizerLoop allCAs (issuerCaId cert) 0 [])"

text \<open>
  The loop of \<open>buildCertificateChainPem\<close>: the same walk, collecting PEM texts with
  \<open>push\<close>, and stopping as well at a record without PEM data.
\<close>

function pemLoop :: "CA list \<Rightarrow> string option \<Rightarrow> nat \<Rightarrow> string list \<Rightarrow> string list" where
  "pemLoop allCAs currentIssuerId safetyNet chain =
     (case currentIssuerId of
        None \<Rightarrow> chain
      | Some cur \<Rightarrow>
          if truthy (Some cur) \<and> safetyNet < maxDepth then
            (case findCaById cur allCAs of
               None \<Rightarrow> chain
             | Some issuerCa \<Rightarrow>
                 (case pemData issuerCa of
                    None \<Rightarrow> chain
                  | Some pem \<Rightarrow>
                      if pem = [] then chain
                      else if selfSigned issuerCa then chain @ [pem]
                      else pemLoop allCAs (issuer issuerCa) (safetyNet + 1) (chain @ [pem])))
          else chain)"
  by pat_completeness auto
termination
  by (relation "measure (\<lambda>(allCAs, cur, safetyNet, chain). maxDepth - safetyNet)") auto

text \<open>
  The separator handed to \<open>join\<close> is the source literal \<open>'\\n\\n'\<close>: in JavaScript
  that is four characters, a backslash and the letter n, twice.
\<close>

definition chainSeparator :: string where
  "chainSeparator = [CHR 0x5C, CHR ''n'', CHR 0x5C, CHR ''n'']"

definition buildCertificateChainPem :: "CertificateData option \<Rightarrow> CA list \<Rightarrow> string" where
  "buildCertificateChainPem targetCert allCAs =
     (case targetCert of
        None \<Rightarrow> []
      | Some cert \<Rightarrow>
          (case cert_pemData cert of
             None \<Rightarrow> []
           | Some pem \<Rightarrow>
               if pem = [] then []
               else join chainSeparator (pemLoop allCAs (issuerCaId cert) 0 [pem])))"

section \<open>Strings, bytes and exceptions of the decoder\<close>

text \<open>
  The decoder reads text that the user supplies and text that the ASN.1 package prints,
  so its strings are modelled as JavaScript has them: lists of 16-bit code units.
  \<open>str\<close> writes a literal of the source as such a list. (The chain resolver above only
  compares and joins identifiers and PEM texts; its strings are HOL strings.)
\<close>

type_synonym codeunit = "16 word"

type_synonym jsstring = "codeunit list"

type_synonym byte = "8 word"

definition str :: "string \<Rightarrow> jsstring" where
  "str s = map (\<lambda>c. of_nat (of_char c)) s"

text \<open>
  Whitespace as \<open>String.prototype.trim\<close> and the regular-expression class \<open>\s\<close> see
  it: TAB, LF, VT, FF, CR, space, no-break space, the other space separators
  (U+1680, U+2000 to U+200A, U+202F, U+205F, U+3000), the line and paragraph separators
  and the byte order mark.
\<close>

definition isSpace :: "codeunit \<Rightarrow> bool" where
  "isSpace u =
     (u \<in> {0x09, 0x0A, 0x0B, 0x0C, 0x0D, 0x20, 0xA0, 0x1680, 0x2000, 0x2001, 0x2002, 0x2003,
            0x2004, 0x2005, 0x2006, 0x2007, 0x2008, 0x2009, 0x200A, 0x2028, 0x2029, 0x202F,
            0x205F, 0x3000, 0xFEFF})"

text \<open>The class \<open>[0-9A-Fa-f]\<close>.\<close>

definition isHexDigit :: "codeunit \<Rightarrow> bool" where
  "isHexDigit u =
     ((0x30 \<le> u \<and> u \<le> 0x39) \<or> (0x41 \<le> u \<and> u \<le> 0x46) \<or> (0x61 \<le> u \<and> u \<le> 0x66))"

definition trim :: "jsstring \<Rightarrow> jsstring" where
  "trim s = rev (dropWhile isSpace (rev (dropWhile isSpace s)))"

text \<open>\<open>s.includes(pat)\<close>: \<open>pat\<close> occurs in \<open>s\<close> as a contiguous run.\<close>

fun str_includes :: "jsstring \<Rightarrow> jsstring \<Rightarrow> bool" where
  "str_includes [] pat = (pat = [])"
| "str_includes (c # cs) pat = (prefix pat (c # cs) \<or> str_includes cs pat)"

text \<open>
  \<open>String.prototype.toUpperCase\<close>, one code unit at a time. Below 256 the mapping is
  complete: the ASCII letters and the accented Latin-1 letters move down by 32, the sharp
  s becomes \<open>SS\<close>, the micro sign becomes U+039C and the y with diaeresis U+0178. Above
  255 the code units whose upper-case form contains an ASCII letter are mapped (the
  dotless i, the long s, and the letters and ligatures of the special-casing table from
  U+0149 to U+FB06); every other code unit is left in place. Its real upper-case form has
  no ASCII character either, and the code only searches the result for ASCII keywords.
\<close>

definition upperUnit :: "codeunit \<Rightarrow> jsstring" where
  "upperUnit u =
     (if 0x61 \<le> u \<and> u \<le> 0x7A then [u - 32]
      else if 0xE0 \<le> u \<and> u \<le> 0xFE \<and> u \<noteq> 0xF7 then [u - 32]
      else if u = 0xDF then [0x53, 0x53]
      else if u = 0xB5 then [0x039C]
      else if u = 0xFF then [0x0178]
      else if u = 0x0131 then [0x49]
      else if u = 0x017F then [0x53]
      else if u = 0x0149 then [0x02BC, 0x4E]
      else if u = 0x01F0 then [0x4A, 0x030C]
      else if u = 0x1E96 then [0x48, 0x0331]
      else if u = 0x1E97 then [0x54, 0x0308]
      else if u = 0x1E98 then [0x57, 0x030A]
      else if u = 0x1E99 then [0x59, 0x030A]
      else if u = 0x1E9A then [0x41, 0x02BE]
      else if u = 0xFB00 then [0x46, 0x46]
      else if u = 0xFB01 then [0x46, 0x49]
      else if u = 0xFB02 then [0x46, 0x4C]
      else if u = 0xFB03 then [0x46, 0x46, 0x49]
      else if u = 0xFB04 then [0x46, 0x46, 0x4C]
      else if u = 0xFB05 then [0x53, 0x54]
      else if u = 0xFB06 then [0x53, 0x54]
      else [u])"

definition toUpperCase :: "jsstring \<Rightarrow> jsstring" where
  "toUpperCase s = concat (map upperUnit s)"

text \<open>Decimal rendering of a number, as a template literal prints it.\<close>

fun showNat :: "nat \<Rightarrow> jsstring" where
  "showNat n =
     (if n < 10 then [of_nat (48 + n)]
      else showNat (n div 10) @ [of_nat (48 + n mod 10)])"

declare showNat.simps [simp del]

definition newline :: jsstring where
  "newline = [0x0A]"

text \<open>
  A thrown value. The handlers read it with
  \<open>error instanceof Error ? error.message : 'Unknown error'\<close>, so what matters is whether
  it is an \<open>Error\<close> object, and then its message. A thrown string is not an \<open>Error\<close>.
\<close>

datatype thrown = ErrorObject jsstring | ThrownString jsstring

fun errorMessage :: "thrown \<Rightarrow> jsstring" where
  "errorMessage (ErrorObject m) = m"
| "errorMessage (ThrownString s) = str ''Unknown error''"

text \<open>
  The functions of the package \<open>@lapo/asn1js\<close> that the hook calls. The package is not
  part of the repository (only its type declarations are), so its functions are
  parameters of the model: each returns its result or the value it throws.
  \<open>decodePretty bytes\<close> stands for
  \<open>ASN1.decode(new Stream(bytes, 0)).toPrettyString()\<close> and \<open>streamHexDump bytes s e\<close>
  for \<open>new Stream(bytes, 0).hexDump(s, e, 'dump')\<close>.
\<close>

record asn1js =
  Hex_decode :: "jsstring \<Rightarrow> thrown + byte list"
  Base64_decode :: "jsstring \<Rightarrow> thrown + byte list"
  decodePretty :: "byte list \<Rightarrow> thrown + jsstring"
  streamHexDump :: "byte list \<Rightarrow> nat \<Rightarrow> nat \<Rightarrow> thrown + jsstring"

section \<open>The decoder hook (useASN1Decoder)\<close>

subsection \<open>Byte normalization\<close>

text \<open>
  One attempt of the expression \<open>/-----BEGIN[^-]+-----/\<close> (or the \<open>END\<close> one) at the
  start of \<open>s\<close>: the keyword, then at least one character that is not a dash, then five
  dashes. The class excludes the dash, so the greedy run is the whole run of non-dashes
  and no shorter run can be followed by a dash. The result is the length of the match.
\<close>

definition matchArmorAt :: "jsstring \<Rightarrow> jsstring \<Rightarrow> nat option" where
  "matchArmorAt kw s =
     (if prefix kw s then
        (let r = drop (length kw) s;
             body = takeWhile (\<lambda>c. c \<noteq> 0x2D) r;
             after = dropWhile (\<lambda>c. c \<noteq> 0x2D) r
         in if body \<noteq> [] \<and> prefix (str ''-----'') after
            then Some (length kw + length body + 5) else None)
      else None)"

text \<open>
  \<open>s.replace(re, '')\<close> without the \<open>g\<close> flag: the leftmost match is removed, and only
  that one.
\<close>

fun removeArmor :: "jsstring \<Rightarrow> jsstring \<Rightarrow> jsstring" where
  "removeArmor kw [] = []"
| "removeArmor kw (c # cs) =
     (case matchArmorAt kw (c # cs) of
        Some n \<Rightarrow> drop n (c # cs)
      | None \<Rightarrow> c # removeArmor kw cs)"

definition hasArmor :: "jsstring \<Rightarrow> bool" where
  "hasArmor t = (str_includes t (str ''-----BEGIN'') \<and> str_includes t (str ''-----END''))"

definition armorBody :: "jsstring \<Rightarrow> jsstring" where
  "armorBody t =
     filter (\<lambda>c. \<not> isSpace c)
       (removeArmor (str ''-----END'') (removeArmor (str ''-----BEGIN'') t))"

text \<open>The test \<open>/^[0-9A-Fa-f\s]+$/\<close>.\<close>

definition looksHex :: "jsstring \<Rightarrow> bool" where
  "looksHex t = (t \<noteq> [] \<and> list_all (\<lambda>c. isHexDigit c \<or> isSpace c) t)"

text \<open>
  \<open>getBytesFromData\<close>. The parameter has type \<open>string\<close>, so the final \<open>throw\<close> of the
  source for other types has no input. Only the third branch has a handler. There
  \<open>bytes[i] = trimmedData.charCodeAt(i)\<close> stores a code unit in a \<open>Uint8Array\<close>, which
  keeps its low eight bits: \<open>ucast\<close> from 16 to 8 bits.
\<close>

definition getBytesFromData :: "asn1js \<Rightarrow> jsstring \<Rightarrow> thrown + byte list" where
  "getBytesFromData L data =
     (let trimmedData = trim data
      in if hasArmor trimmedData then Base64_decode L (armorBody trimmedData)
         else if looksHex trimmedData then Hex_decode L trimmedData
         else (case Base64_decode L trimmedData of
                 Inr bytes \<Rightarrow> Inr bytes
               | Inl e \<Rightarrow> Inr (map (\<lambda>u. ucast u :: byte) trimmedData)))"

subsection \<open>The four outputs\<close>

definition maxHexLength :: nat where
  "maxHexLength = 512"

definition generateHexDump :: "asn1js \<Rightarrow> jsstring \<Rightarrow> jsstring" where
  "generateHexDump L data =
     (case getBytesFromData L data of
        Inl e \<Rightarrow> str ''Hex dump error: '' @ errorMessage e
      | Inr bytes \<Rightarrow>
          (case streamHexDump L bytes 0 (min (length bytes) maxHexLength) of
             Inl e \<Rightarrow> str ''Hex dump error: '' @ errorMessage e
           | Inr hexDump \<Rightarrow>
               if length bytes > maxHexLength
               then hexDump @ str ''... ('' @ showNat (length bytes - maxHexLength)
                      @ str '' more bytes)'' @ newline
               else hexDump))"

definition parseErrorText :: "thrown \<Rightarrow> jsstring" where
  "parseErrorText e =
     str ''Parse Error: '' @ errorMessage e @ newline @ newline
     @ str ''Supported formats:'' @ newline
     @ str ''- PEM (-----BEGIN ... -----END ...)'' @ newline
     @ str ''- Hexadecimal (space-separated or continuous)'' @ newline
     @ str ''- Base64 encoded data'' @ newline @ newline
     @ str ''Make sure your input contains valid ASN.1 data.''"

definition generateASN1Structure :: "asn1js \<Rightarrow> jsstring \<Rightarrow> jsstring" where
  "generateASN1Structure L data =
     (case getBytesFromData L data of
        Inl e \<Rightarrow> parseErrorText e
      | Inr bytes \<Rightarrow>
          (case decodePretty L bytes of
             Inl e \<Rightarrow> parseErrorText e
           | Inr pretty \<Rightarrow> pretty))"

text \<open>
  \<open>btoa\<close> is the browser's Base64 encoder (RFC 4648, section 4): three bytes become four
  letters of the alphabet, and a last group of one or two bytes is padded with \<open>=\<close>.
  The hook builds its argument with \<open>String.fromCharCode\<close> from bytes, so every code
  unit of the argument is below 256: the argument is a HOL string, one \<open>char\<close> per byte,
  and \<open>btoa\<close> does not throw on it.
\<close>

definition b64Alphabet :: string where
  "b64Alphabet = ''ABCDEFGHIJKLMNOPQRSTUVWXYZabcdefghijklmnopqrstuvwxyz0123456789+/''"

definition b64Char :: "nat \<Rightarrow> char" where
  "b64Char n = b64Alphabet ! (n mod 64)"

fun b64Groups :: "nat list \<Rightarrow> string" where
  "b64Groups [] = []"
| "b64Groups [a] = [b64Char (a div 4), b64Char ((a mod 4) * 16), CHR ''='', CHR ''='']"
| "b64Groups [a, b] =
     [b64Char (a div 4), b64Char ((a mod 4) * 16 + b div 16), b64Char ((b mod 16) * 4),
      CHR ''='']"
| "b64Groups (a # b # c # rest) =
     [b64Char (a div 4), b64Char ((a mod 4) * 16 + b div 16),
      b64Char ((b mod 16) * 4 + c div 64), b64Char (c mod 64)] @ b64Groups rest"

definition btoa :: "string \<Rightarrow> jsstring" where
  "btoa binaryString = str (b64Groups (map of_char binaryString))"

definition fromCharCode :: "byte \<Rightarrow> char" where
  "fromCharCode b = char_of (unat b)"

definition maxLength :: nat where
  "maxLength = 10240"

definition generateBase64 :: "asn1js \<Rightarrow> jsstring \<Rightarrow> jsstring" where
  "generateBase64 L data =
     (case getBytesFromData L data of
        Inl e \<Rightarrow> []
      | Inr bytes \<Rightarrow>
          if length bytes < maxLength then btoa (map fromCharCode bytes) else [])"

subsection \<open>Content-type guess\<close>

text \<open>
  A guess: the source object \<open>{type: {description}, match}\<close>. The descriptions are
  literals of the source and are kept as HOL strings. \<open>match\<close> is a double there; the six
  lists hold decimal literals only, written here as exact fractions, which compare the
  same way.
\<close>

record TypeDefinition =
  description :: string
  match :: rat

definition typeDef :: "string \<Rightarrow> rat \<Rightarrow> TypeDefinition" where
  "typeDef d m = \<lparr>description = d, match = m\<rparr>"

definition detectContentType :: "jsstring \<Rightarrow> TypeDefinition list" where
  "detectContentType content =
     (let upper = toUpperCase content
      in if str_includes upper (str ''BEGIN CERTIFICATE'')
            \<or> str_includes upper (str ''CERTIFICATE'') then
           [typeDef ''X.509 Certificate'' (95 / 100),
            typeDef ''PKCS#7/CMS Signature'' (20 / 100),
            typeDef ''PKCS#8 Private Key'' (10 / 100)]
         else if str_includes upper (str ''BEGIN PRIVATE KEY'')
            \<or> str_includes upper (str ''PRIVATE KEY'') then
           [typeDef ''PKCS#8 Private Key'' (92 / 100),
            typeDef ''PKCS#1 RSA Private Key'' (85 / 100),
            typeDef ''X.509 Certificate'' (15 / 100)]
         else if str_includes upper (str ''BEGIN RSA PRIVATE KEY'') then
           [typeDef ''PKCS#1 RSA Private Key'' (98 / 100),
            typeDef ''PKCS#8 Private Key'' (75 / 100),
            typeDef ''X.509 Certificate'' (10 / 100)]
         else if str_includes upper (str ''BEGIN CERTIFICATE REQUEST'')
            \<or> str_includes upper (str ''CSR'') then
           [typeDef ''PKCS#10 Certificate Request'' (95 / 100),
            typeDef ''X.509 Certificate'' (30 / 100),
            typeDef ''PKCS#8 Private Key'' (15 / 100)]
         else if str_includes upper (str ''PKCS7'') \<or> str_includes upper (str ''CMS'')
            \<or> str_includes content (str ''.p7'') then
           [typeDef ''PKCS#7/CMS Signature'' (90 / 100),
            typeDef ''PKCS#7/CMS Encrypted Data'' (70 / 100),
            typeDef ''X.509 Certificate'' (25 / 100)]
         else
           [typeDef ''ASN.1 DER Structure'' (80 / 100),
            typeDef ''PKCS#12 Container'' (40 / 100),
            typeDef ''Custom ASN.1 Format'' (30 / 100)])"

text \<open>
  \<open>detectContentType(der).sort((a, b) => b.match - a.match)\<close>: a stable sort, largest
  \<open>match\<close> first.
\<close>

definition mockTypes :: "jsstring \<Rightarrow> TypeDefinition list" where
  "mockTypes der = sort_key (\<lambda>d. - match d) (detectContentType der)"

subsection \<open>The decode call\<close>

record ASN1DecodedData =
  content :: jsstring
  "structure" :: jsstring
  hexDump :: "jsstring option"
  base64 :: jsstring
  definitions :: "TypeDefinition list option"

text \<open>
  \<open>decode\<close> returns a promise: \<open>Inr\<close> is the value it resolves to, \<open>Inl\<close> the value it
  rejects with. Each of the three generators handles its own exceptions and the guess
  throws nothing, so the body reaches its \<open>return\<close>. The React state setters and the
  half-second delay leave the returned value alone and are not modelled.
\<close>

definition decode :: "asn1js \<Rightarrow> bool \<Rightarrow> bool \<Rightarrow> jsstring \<Rightarrow> thrown + ASN1DecodedData" where
  "decode L wantHex wantDef der =
     Inr \<lparr>content = der,
          structure = generateASN1Structure L der,
          hexDump = (if wantHex then Some (generateHexDump L der) else None),
          base64 = generateBase64 L der,
          definitions = (if wantDef then Some (mockTypes der) else None)\<rparr>"

section \<open>The structure tree (parseASN1Tree)\<close>

text \<open>\<open>s.split('\n')\<close>: the pieces between line feeds; a string without one is one piece.\<close>

fun splitLines :: "jsstring \<Rightarrow> jsstring list" where
  "splitLines [] = [[]]"
| "splitLines (c # cs) =
     (if c = 0x0A then [] # splitLines cs
      else (case splitLines cs of
              [] \<Rightarrow> [[c]]
            | l # ls \<Rightarrow> (c # l) # ls))"

text \<open>The first value that a list of attempts yields, in the order of the list.\<close>

fun firstSome :: "('a \<Rightarrow> 'b option) \<Rightarrow> 'a list \<Rightarrow> 'b option" where
  "firstSome f [] = None"
| "firstSome f (x # xs) = (case f x of Some y \<Rightarrow> Some y | None \<Rightarrow> firstSome f xs)"







definition hexValue :: "codeunit \<Rightarrow> nat" where
  "hexValue u =
     (if 0x30 \<le> u \<and> u \<le> 0x39 then unat u - 48
      else if 0x41 \<le> u \<and> u \<le> 0x46 then unat u - 55
      else unat u - 87)"

text \<open>
  A JavaScript number that holds a non-negative integer. Up to \<open>2^53\<close> a double holds
  it exactly. \<open>Beyond\<close> stands for a number that this model does not follow: a double
  above \<open>2^53\<close>, where integers are rounded, or an end offset for a content length above
  \<open>2^48\<close>, where the rounding of \<open>Math.log2\<close> next to a power of 256 decides the result.
  Either way it is larger than \<open>2^48\<close>.
\<close>

datatype number = Exact nat | Beyond

definition toNumber :: "nat \<Rightarrow> number" where
  "toNumber v = (if v \<le> 2 ^ 53 then Exact v else Beyond)"


text \<open>
  \<open>Math.ceil(Math.log2(n) / 8)\<close> for \<open>n \<ge> 1\<close>, computed on integers: the least \<open>k\<close>
  with \<open>n \<le> 256^k\<close>. Lemma \<open>ceilLog2Div8_log\<close> below relates it to the real
  logarithm.
\<close>

fun ceilLog2Div8 :: "nat \<Rightarrow> nat" where
  "ceilLog2Div8 n = (if n \<le> 1 then 0 else 1 + ceilLog2Div8 ((n + 255) div 256))"

declare ceilLog2Div8.simps [simp del]

text \<open>
  The expression assigned to \<open>byteEnd\<close> when the line carries a length:
  \<open>byteStart + 1 + (contentLength > 127 ? Math.ceil(Math.log2(contentLength) / 8) + 1 : 1)
  + contentLength\<close>. The source calls it an approximation: one tag byte, and a guess at
  the size of the length field.
\<close>

fun byteEndOf :: "number \<Rightarrow> number \<Rightarrow> number" where
  "byteEndOf (Exact byteStart) (Exact contentLength) =
     (if contentLength \<le> 2 ^ 48
      then toNumber (byteStart + 1
             + (if contentLength > 127 then ceilLog2Div8 contentLength + 1 else 1)
             + contentLength)
      else Beyond)"
| "byteEndOf byteStart contentLength = Beyond"













text \<open>
  The sibling computation in \<open>extractHexFromLine\<close>: \<open>getLengthBytes\<close> writes the length
  field itself; this is the number of bytes it writes.
\<close>

definition getLengthBytesCount :: "nat \<Rightarrow> nat" where
  "getLengthBytesCount n =
     (if n < 0x80 then 1 else if n < 0x100 then 2 else if n < 0x10000 then 3 else 4)"

section \<open>The hex dump view (formatHexDump)\<close>

text \<open>
  The hovered range \<open>{start, end}\<close>: \<open>handleMouseEnter\<close> of a tree node sets it from the
  node's two numbers when both are there, and leaves it alone otherwise.
\<close>

record ByteRange =
  range_start :: number
  range_end :: number


text \<open>
  The comparisons \<open>currentBytePosition >= start\<close> and \<open>currentBytePosition < end\<close>. A
  position counts tokens of a dump of at most 512 bytes, so it is below any number that
  is \<open>Beyond\<close>.
\<close>

fun posAtLeast :: "nat \<Rightarrow> number \<Rightarrow> bool" where
  "posAtLeast pos (Exact a) = (a \<le> pos)"
| "posAtLeast pos Beyond = False"

fun posBelow :: "nat \<Rightarrow> number \<Rightarrow> bool" where
  "posBelow pos (Exact b) = (pos < b)"
| "posBelow pos Beyond = True"

text \<open>
  What is rendered for one hex byte: its text in upper case, the position computed for
  it, and whether it gets the hover highlight. The colour classes and the tooltip are
  chosen from these and from \<open>colorsEnabled\<close>; the hover highlight has priority.
\<close>

record HexToken =
  byteText :: jsstring
  currentBytePosition :: nat
  isHovered :: bool

datatype HexRow =
  SpacerRow
  | OffsetRow jsstring "HexToken list" jsstring
  | BytesRow "HexToken list"
  | TextRow jsstring

text \<open>The characters that the dot of a regular expression does not match.\<close>

definition isLineTerminator :: "codeunit \<Rightarrow> bool" where
  "isLineTerminator u = (u \<in> {0x0A, 0x0D, 0x2028, 0x2029})"

text \<open>
  The last two groups of \<open>/^([0-9a-fA-F]{4,8}):\s+([0-9a-fA-F\s]+)\s+(.*)$/\<close> once the
  hex part has been given \<open>h\<close> characters of \<open>s\<close>: whitespace must follow, and what
  follows the whitespace must be free of line terminators, which the dot does not match.
  Giving the second \<open>\s+\<close> less than the whole run of whitespace only adds whitespace to
  what the dot must match, so it cannot help.
\<close>

definition tryHexPart :: "jsstring \<Rightarrow> nat \<Rightarrow> (jsstring \<times> jsstring) option" where
  "tryHexPart s h =
     (let rest = drop h s;
          asciiPart = dropWhile isSpace rest
      in if takeWhile isSpace rest \<noteq> [] \<and> \<not> list_ex isLineTerminator asciiPart
         then Some (take h s, asciiPart) else None)"

text \<open>
  The hex part after the first \<open>\s+\<close> has taken \<open>k\<close> characters: the greedy class takes
  the longest run of hex digits and whitespace and gives characters back one by one.
\<close>

definition tryLeadingSpace :: "jsstring \<Rightarrow> nat \<Rightarrow> (jsstring \<times> jsstring) option" where
  "tryLeadingSpace s k =
     (let s1 = drop k s;
          hmax = length (takeWhile (\<lambda>c. isHexDigit c \<or> isSpace c) s1)
      in firstSome (tryHexPart s1) (rev [1..<hmax + 1]))"

text \<open>
  The whole expression on a line: four to eight hex digits (the run must end at the
  colon), the colon, and then the greedy first \<open>\s+\<close>, longest first. The result is the
  three groups: offset, hex part, ASCII part.
\<close>

definition hexMatch :: "jsstring \<Rightarrow> (jsstring \<times> jsstring \<times> jsstring) option" where
  "hexMatch l =
     (let offset = takeWhile isHexDigit l;
          r = dropWhile isHexDigit l
      in if 4 \<le> length offset \<and> length offset \<le> 8 \<and> prefix (str '':'') r then
           (let s = drop 1 r;
                wmax = length (takeWhile isSpace s)
            in map_option (\<lambda>(hexPart, asciiPart). (offset, hexPart, asciiPart))
                 (firstSome (tryLeadingSpace s) (rev [1..<wmax + 1])))
         else None)"

text \<open>
  \<open>s.trim().split(/\s+/)\<close>: the maximal runs of characters that are not whitespace. On
  an empty string JavaScript yields one empty piece; both filters below drop it.
  \<open>wordsFrom w s\<close> carries the word being read, last character first.
\<close>

fun wordsFrom :: "jsstring \<Rightarrow> jsstring \<Rightarrow> jsstring list" where
  "wordsFrom w [] = (if w = [] then [] else [rev w])"
| "wordsFrom w (c # cs) =
     (if isSpace c then (if w = [] then wordsFrom [] cs else rev w # wordsFrom [] cs)
      else wordsFrom (c # w) cs)"

definition splitWords :: "jsstring \<Rightarrow> jsstring list" where
  "splitWords s = wordsFrom [] s"

definition isHexPair :: "jsstring \<Rightarrow> bool" where
  "isHexPair w = (length w = 2 \<and> list_all isHexDigit w)"

definition renderToken :: "ByteRange option \<Rightarrow> nat \<Rightarrow> nat \<Rightarrow> jsstring \<Rightarrow> HexToken" where
  "renderToken hoveredByteRange lineStartByteIndex byteIndex byte =
     (let pos = lineStartByteIndex + byteIndex
      in \<lparr>byteText = toUpperCase byte,
          currentBytePosition = pos,
          isHovered = (case hoveredByteRange of
                         None \<Rightarrow> False
                       | Some r \<Rightarrow> posAtLeast pos (range_start r) \<and> posBelow pos (range_end r))\<rparr>)"

definition renderTokens :: "ByteRange option \<Rightarrow> nat \<Rightarrow> jsstring list \<Rightarrow> HexToken list" where
  "renderTokens hoveredByteRange lineStartByteIndex hexBytes =
     map (\<lambda>(byteIndex, byte). renderToken hoveredByteRange lineStartByteIndex byteIndex byte)
       (enumerate 0 hexBytes)"

text \<open>
  The callback of \<open>lines.map\<close> on one line, with the variable \<open>absoluteByteIndex\<close> as
  state: the row and the value of the variable afterwards. In the branch for lines with
  an offset the row is returned at once and the statement
  \<open>absoluteByteIndex += hexBytes.length\<close> that follows the \<open>return\<close> is never run. In
  the branch for plain hex lines the row is stored, the variable is advanced and the row
  is returned.
\<close>

definition formatLine :: "ByteRange option \<Rightarrow> nat \<Rightarrow> jsstring \<Rightarrow> HexRow \<times> nat" where
  "formatLine hoveredByteRange absoluteByteIndex l =
     (if trim l = [] then (SpacerRow, absoluteByteIndex)
      else (case hexMatch l of
              Some (offset, hexPart, asciiPart) \<Rightarrow>
                (let hexBytes = filter (\<lambda>byte. length byte = 2) (splitWords (trim hexPart))
                 in (OffsetRow offset (renderTokens hoveredByteRange absoluteByteIndex hexBytes)
                       asciiPart,
                     absoluteByteIndex))
            | None \<Rightarrow>
                (let hexBytes = filter isHexPair (splitWords (trim l))
                 in if length hexBytes > 0
                    then (BytesRow (renderTokens hoveredByteRange absoluteByteIndex hexBytes),
                          absoluteByteIndex + length hexBytes)
                    else (TextRow l, absoluteByteIndex))))"

fun formatLines :: "ByteRange option \<Rightarrow> nat \<Rightarrow> jsstring list \<Rightarrow> HexRow list" where
  "formatLines hoveredByteRange absoluteByteIndex [] = []"
| "formatLines hoveredByteRange absoluteByteIndex (l # ls) =
     (case formatLine hoveredByteRange absoluteByteIndex l of
        (row, absoluteByteIndex') \<Rightarrow> row # formatLines hoveredByteRange absoluteByteIndex' ls)"

definition formatHexDump :: "ByteRange option \<Rightarrow> jsstring \<Rightarrow> HexRow list" where
  "formatHexDump hoveredByteRange hexDumpText =
     formatLines hoveredByteRange 0 (splitLines hexDumpText)"

text \<open>The tokens of a rendered dump, in reading order.\<close>

fun rowTokens :: "HexRow \<Rightarrow> HexToken list" where
  "rowTokens SpacerRow = []"
| "rowTokens (OffsetRow offset tokens asciiPart) = tokens"
| "rowTokens (BytesRow tokens) = tokens"
| "rowTokens (TextRow l) = []"

definition dumpTokens :: "ByteRange option \<Rightarrow> jsstring \<Rightarrow> HexToken list" where
  "dumpTokens hoveredByteRange hexDumpText =
     concat (map rowTokens (formatHexDump hoveredByteRange hexDumpText))"

section \<open>Records and a package instance for closed examples\<close>

text \<open>A root that names itself as issuer, an intermediate under it, and a leaf.\<close>

definition rootCa :: CA where
  "rootCa = \<lparr>ca_id = ''root-ca'', issuer = Some ''root-ca'', pemData = Some ''ROOT-PEM''\<rparr>"

definition intermediateCa :: CA where
  "intermediateCa =
     \<lparr>ca_id = ''intermediate-ca'', issuer = Some ''root-ca'', pemData = Some ''INTERMEDIATE-PEM''\<rparr>"

definition leafCert :: CertificateData where
  "leafCert = \<lparr>cert_pemData = Some ''LEAF-PEM'', issuerCaId = Some ''intermediate-ca''\<rparr>"

text \<open>The root seen as the record under inspection: its issuer reference is its own id.\<close>

definition rootAsLeaf :: CertificateData where
  "rootAsLeaf = \<lparr>cert_pemData = Some ''ROOT-PEM'', issuerCaId = Some ''root-ca''\<rparr>"

text \<open>Two records that name each other as issuer, and a leaf under the first.\<close>

definition cycleA :: CA where
  "cycleA = \<lparr>ca_id = ''A'', issuer = Some ''B'', pemData = Some ''A-PEM''\<rparr>"

definition cycleB :: CA where
  "cycleB = \<lparr>ca_id = ''B'', issuer = Some ''A'', pemData = Some ''B-PEM''\<rparr>"

definition cycleLeaf :: CertificateData where
  "cycleLeaf = \<lparr>cert_pemData = Some ''LEAF-PEM'', issuerCaId = Some ''A''\<rparr>"

text \<open>
  An instance of the package for closed examples, written after the package's own
  functions. Its two text decoders skip the characters of the package's ignore list
  (space, FF, LF, CR, TAB, no-break space, line and paragraph separator; not VT) and
  throw strings, not \<open>Error\<close> objects: \<open>Illegal character at offset i\<close> for any other
  character outside the alphabet, and a message about missing bits for a hex digit or a
  Base64 letter left over. The Base64 decoder stops at the first \<open>=\<close> and also reads the
  URL-safe letters \<open>-\<close> and \<open>_\<close>.
\<close>

definition ignored :: "codeunit \<Rightarrow> bool" where
  "ignored u = (u \<in> {0x20, 0x0C, 0x0A, 0x0D, 0x09, 0xA0, 0x2028, 0x2029})"

fun hexScan :: "nat \<Rightarrow> nat option \<Rightarrow> jsstring \<Rightarrow> thrown + byte list" where
  "hexScan i pending [] =
     (case pending of
        None \<Rightarrow> Inr []
      | Some h \<Rightarrow> Inl (ThrownString (str ''Hex encoding incomplete: 4 bits missing'')))"
| "hexScan i pending (c # cs) =
     (if ignored c then hexScan (i + 1) pending cs
      else if isHexDigit c then
        (case pending of
           None \<Rightarrow> hexScan (i + 1) (Some (hexValue c)) cs
         | Some h \<Rightarrow>
             (case hexScan (i + 1) None cs of
                Inl e \<Rightarrow> Inl e
              | Inr bytes \<Rightarrow> Inr (of_nat (16 * h + hexValue c) # bytes)))
      else Inl (ThrownString (str ''Illegal character at offset '' @ showNat i)))"

definition exampleHexDecode :: "jsstring \<Rightarrow> thrown + byte list" where
  "exampleHexDecode s = hexScan 0 None s"

definition b64Value :: "codeunit \<Rightarrow> nat option" where
  "b64Value u =
     (if 0x41 \<le> u \<and> u \<le> 0x5A then Some (unat u - 65)
      else if 0x61 \<le> u \<and> u \<le> 0x7A then Some (unat u - 71)
      else if 0x30 \<le> u \<and> u \<le> 0x39 then Some (unat u + 4)
      else if u = 0x2B \<or> u = 0x2D then Some 62
      else if u = 0x2F \<or> u = 0x5F then Some 63
      else None)"

fun b64Scan :: "nat \<Rightarrow> jsstring \<Rightarrow> thrown + nat list" where
  "b64Scan i [] = Inr []"
| "b64Scan i (c # cs) =
     (if c = 0x3D then Inr []
      else if ignored c then b64Scan (i + 1) cs
      else (case b64Value c of
              None \<Rightarrow> Inl (ThrownString (str ''Illegal character at offset '' @ showNat i))
            | Some v \<Rightarrow>
                (case b64Scan (i + 1) cs of
                   Inl e \<Rightarrow> Inl e
                 | Inr vs \<Rightarrow> Inr (v # vs))))"

fun sextetsToBytes :: "nat list \<Rightarrow> thrown + byte list" where
  "sextetsToBytes [] = Inr []"
| "sextetsToBytes [a] =
     Inl (ThrownString (str ''Base64 encoding incomplete: at least 2 bits missing''))"
| "sextetsToBytes [a, b] = Inr [of_nat (a * 4 + b div 16)]"
| "sextetsToBytes [a, b, c] = Inr [of_nat (a * 4 + b div 16), of_nat ((b mod 16) * 16 + c div 4)]"
| "sextetsToBytes (a # b # c # d # rest) =
     (case sextetsToBytes rest of
        Inl e \<Rightarrow> Inl e
      | Inr bytes \<Rightarrow>
          Inr (of_nat (a * 4 + b div 16) # of_nat ((b mod 16) * 16 + c div 4)
                 # of_nat ((c mod 4) * 64 + d) # bytes))"

definition exampleBase64Decode :: "jsstring \<Rightarrow> thrown + byte list" where
  "exampleBase64Decode s =
     (case b64Scan 0 s of
        Inl e \<Rightarrow> Inl e
      | Inr vs \<Rightarrow> sextetsToBytes vs)"

text \<open>
  The dump of the package in its \<open>dump\<close> format: each byte as two upper-case hex digits,
  followed by two spaces after the eighth byte of a row, a line feed after the
  sixteenth and one space otherwise. There is no offset column.
\<close>

definition hexDigitChar :: "nat \<Rightarrow> codeunit" where
  "hexDigitChar n = str ''0123456789ABCDEF'' ! (n mod 16)"

fun dumpFrom :: "nat \<Rightarrow> byte list \<Rightarrow> jsstring" where
  "dumpFrom i [] = []"
| "dumpFrom i (b # bs) =
     [hexDigitChar (unat b div 16), hexDigitChar (unat b mod 16)]
     @ (if i mod 16 = 7 then str ''  '' else if i mod 16 = 15 then newline else str '' '')
     @ dumpFrom (i + 1) bs"

definition exampleHexDump :: "byte list \<Rightarrow> nat \<Rightarrow> nat \<Rightarrow> thrown + jsstring" where
  "exampleHexDump bytes s e = Inr (dumpFrom s (take (e - s) (drop s bytes)))"

text \<open>
  Of the ASN.1 decoder the examples need one case only: a constructed element with a
  one-byte tag and a short-form length that runs past the end of the buffer, on which
  the package throws an \<open>Error\<close> that names the offset of the content and the declared
  length. No example decodes a well-formed buffer; the stand-in answers any other buffer
  with an error of its own.
\<close>

definition exampleDecodePretty :: "byte list \<Rightarrow> thrown + jsstring" where
  "exampleDecodePretty bytes =
     (case bytes of
        tag # len # rest \<Rightarrow>
          if bit tag 5 \<and> len < 0x80 \<and> unat len > length rest
          then Inl (ErrorObject (str ''Container at offset 2 has a length of ''
                  @ showNat (unat len) @ str '', which is past the end of the stream''))
          else Inl (ErrorObject (str ''not decoded by the stand-in''))
      | _ \<Rightarrow> Inl (ErrorObject (str ''not decoded by the stand-in'')))"

definition exampleLib :: asn1js where
  "exampleLib =
     \<lparr>Hex_decode = exampleHexDecode,
      Base64_decode = exampleBase64Decode,
      decodePretty = exampleDecodePretty,
      streamHexDump = exampleHexDump\<rparr>"

text \<open>
  Eighteen bytes and their dump as the package prints it: a row of sixteen and a row of
  two.
\<close>

definition exampleBytes :: "byte list" where
  "exampleBytes =
     [0x30, 0x10, 0x02, 0x01, 0x01, 0x02, 0x01, 0x02, 0x02, 0x01, 0x03, 0x02, 0x01, 0x04,
      0x02, 0x01, 0x05, 0x00]"

definition exampleDump :: jsstring where
  "exampleDump =
     str ''30 10 02 01 01 02 01 02  02 01 03 02 01 04 02 01'' @ newline @ str ''05 00 ''"

text \<open>
  Two rows in a format with an offset column, which the package does not print but
  \<open>formatHexDump\<close> has a branch for.
\<close>

definition offsetDump :: jsstring where
  "offsetDump = str ''0000: 30 03  0.'' @ newline @ str ''0010: 02 01  ..''"

text \<open>A PEM text: armor lines around a Base64 body. And two of them in one text.\<close>

definition examplePem :: jsstring where
  "examplePem =
     str ''-----BEGIN CERTIFICATE-----'' @ newline @ str ''MAMCAQU='' @ newline
     @ str ''-----END CERTIFICATE-----''"

definition examplePemBundle :: jsstring where
  "examplePemBundle = examplePem @ newline @ examplePem"



section \<open>Properties of the chain resolver\<close>

lemma findCaById_distinct:
  assumes "distinct (map ca_id allCAs)" and "ca \<in> set allCAs"
  shows "findCaById (ca_id ca) allCAs = Some ca"
  using assms unfolding findCaById_def
  by (induction allCAs) (auto simp: rev_image_eqI)

lemma visualizerLoop_length:
  "length (visualizerLoop allCAs cur safetyNet path) \<le> length path + (maxDepth - safetyNet)"
proof (induction allCAs cur safetyNet path rule: visualizerLoop.induct)
  case (1 allCAs currentIssuerId safetyNet path)
  show ?case
  proof (cases currentIssuerId)
    case None
    then show ?thesis by simp
  next
    case (Some cur)
    show ?thesis
    proof (cases "truthy (Some cur) \<and> safetyNet < maxDepth")
      case False
      with Some show ?thesis by auto
    next
      case guard: True
      show ?thesis
      proof (cases "findCaById cur allCAs")
        case None
        with Some guard show ?thesis by auto
      next
        case found: (Some issuerCa)
        show ?thesis
        proof (cases "selfSigned issuerCa")
          case True
          with Some guard found show ?thesis by auto
        next
          case False
          from "1.IH"[OF Some guard found False]
          have "length (visualizerLoop allCAs (issuer issuerCa) (safetyNet + 1) (issuerCa # path))
                  \<le> length (issuerCa # path) + (maxDepth - (safetyNet + 1))" .
          with Some guard found False show ?thesis by auto
        qed
      qed
    qed
  qed
qed

text \<open>
  C2. For every leaf record and every CA list, a cyclic one included, the chain walk
  returns, and the chain it returns has at most \<open>maxDepth = 10\<close> entries. The walk is a
  total function: its termination proof is the measure \<open>maxDepth - safetyNet\<close> given
  with \<open>visualizerLoop\<close>.
\<close>

theorem chain_length_bounded:
  "length (certificateChainForVisualizer certificateDetails allCAs) \<le> maxDepth \<and> maxDepth = 10"
proof (cases certificateDetails)
  case None
  then show ?thesis by (simp add: certificateChainForVisualizer_def maxDepth_def)
next
  case (Some cert)
  have "length (visualizerLoop allCAs (issuerCaId cert) 0 [])
          \<le> length ([] :: CA list) + (maxDepth - 0)"
    by (rule visualizerLoop_length)
  with Some show ?thesis by (simp add: certificateChainForVisualizer_def maxDepth_def)
qed

theorem chain_length_bounded_witness:
  "length (certificateChainForVisualizer (Some cycleLeaf) [cycleA, cycleB]) \<le> 10"
  using chain_length_bounded [of "Some cycleLeaf" "[cycleA, cycleB]"] by simp

text \<open>On the two records that name each other the walk runs into the bound: ten entries.\<close>

lemma cyclic_chain_has_ten_entries:
  "map ca_id (certificateChainForVisualizer (Some cycleLeaf) [cycleA, cycleB])
     = [''B'', ''A'', ''B'', ''A'', ''B'', ''A'', ''B'', ''A'', ''B'', ''A'']"
  by (simp add: certificateChainForVisualizer_def cycleLeaf_def cycleA_def cycleB_def
      findCaById_def selfSigned_def maxDepth_def)

text \<open>
  C1. A leaf whose issuer reference is Intermediate, Intermediate (not self-signed) whose
  issuer reference is Root, Root self-signed, and a CA list with distinct identifiers
  that contains Root and Intermediate: the chain resolver returns exactly
  \<open>[Root, Intermediate]\<close>, root first, the leaf's direct issuer last, the leaf not
  included.
\<close>

theorem three_level_chain:
  assumes ids: "distinct (map ca_id allCAs)"
    and root_in: "Root \<in> set allCAs"
    and inter_in: "Intermediate \<in> set allCAs"
    and leaf_issuer: "issuerCaId Leaf = Some (ca_id Intermediate)"
    and leaf_ref: "truthy (issuerCaId Leaf)"
    and inter_issuer: "issuer Intermediate = Some (ca_id Root)"
    and inter_not_self: "\<not> selfSigned Intermediate"
    and root_self: "selfSigned Root"
  shows "certificateChainForVisualizer (Some Leaf) allCAs = [Root, Intermediate]"
proof -
  have f1: "findCaById (ca_id Intermediate) allCAs = Some Intermediate"
    using ids inter_in by (rule findCaById_distinct)
  have f2: "findCaById (ca_id Root) allCAs = Some Root"
    using ids root_in by (rule findCaById_distinct)
  have ne: "allCAs \<noteq> []" using root_in by auto
  have i_ne: "ca_id Intermediate \<noteq> []"
    using leaf_ref leaf_issuer by simp
  have r_ne: "ca_id Root \<noteq> []"
    using inter_not_self inter_issuer by (auto simp: selfSigned_def)
  have "visualizerLoop allCAs (Some (ca_id Root)) 1 [Intermediate] = [Root, Intermediate]"
    using f2 root_self r_ne by (simp add: maxDepth_def)
  then have "visualizerLoop allCAs (Some (ca_id Intermediate)) 0 [] = [Root, Intermediate]"
    using f1 inter_not_self i_ne inter_issuer by (simp add: maxDepth_def)
  then show ?thesis
    using ne leaf_issuer by (simp add: certificateChainForVisualizer_def)
qed

theorem three_level_chain_witness:
  "certificateChainForVisualizer (Some leafCert) [rootCa, intermediateCa]
     = [rootCa, intermediateCa]"
  using three_level_chain [of "[rootCa, intermediateCa]" rootCa intermediateCa leafCert]
  by (simp add: rootCa_def intermediateCa_def leafCert_def selfSigned_def)

text \<open>
  C8, as stated: for a self-signed root \<open>thisCa\<close> whose issuer reference is its own
  identifier, the chain built for \<open>thisCa\<close> over the list \<open>[thisCa]\<close> is empty. On the
  record \<open>rootCa\<close> the walk looks up the issuer reference, finds the record itself and
  puts it on the path before it tests for self-signature.
\<close>

theorem self_signed_root_chain_counterexample:
  "issuer rootCa = Some (ca_id rootCa) \<and> issuerCaId rootAsLeaf = issuer rootCa
     \<and> certificateChainForVisualizer (Some rootAsLeaf) [rootCa] \<noteq> []"
  by (simp add: certificateChainForVisualizer_def rootAsLeaf_def rootCa_def findCaById_def
      selfSigned_def maxDepth_def)

text \<open>
  C8, amended: for a self-signed root \<open>thisCa\<close> whose issuer reference is its own,
  non-empty identifier, the chain built for \<open>thisCa\<close> over the list \<open>[thisCa]\<close> is the
  one-element sequence \<open>[thisCa]\<close>.
\<close>

theorem self_signed_root_chain:
  assumes "issuer thisCa = Some (ca_id thisCa)"
    and "issuerCaId leaf = issuer thisCa"
    and "ca_id thisCa \<noteq> []"
  shows "certificateChainForVisualizer (Some leaf) [thisCa] = [thisCa]"
  using assms
  by (simp add: certificateChainForVisualizer_def findCaById_def selfSigned_def maxDepth_def)

theorem self_signed_root_chain_witness:
  "certificateChainForVisualizer (Some rootAsLeaf) [rootCa] = [rootCa]"
  using self_signed_root_chain [of rootCa rootAsLeaf]
  by (simp add: rootAsLeaf_def rootCa_def)

text \<open>
  C7 says that the blocks of the full-chain PEM export are separated by blank lines. For
  the leaf \<open>leafCert\<close> and the list \<open>[rootCa, intermediateCa]\<close> the export has the
  three PEM texts in the order leaf, intermediate, root, but what stands between them is
  the four characters backslash, n, backslash, n; the text has no line feed at all.
\<close>

theorem chain_pem_separator_is_literal:
  "buildCertificateChainPem (Some leafCert) [rootCa, intermediateCa]
     = ''LEAF-PEM'' @ [CHR 0x5C, CHR ''n'', CHR 0x5C, CHR ''n''] @ ''INTERMEDIATE-PEM''
       @ [CHR 0x5C, CHR ''n'', CHR 0x5C, CHR ''n''] @ ''ROOT-PEM''
   \<and> CHR 0x0A \<notin> set (buildCertificateChainPem (Some leafCert) [rootCa, intermediateCa])"
  by (simp add: buildCertificateChainPem_def leafCert_def rootCa_def intermediateCa_def
      findCaById_def selfSigned_def maxDepth_def chainSeparator_def)

section \<open>Properties of the decoder hook\<close>

subsection \<open>Content-type guess\<close>

lemma str_includes_sublist: "str_includes s pat = sublist pat s"
  by (induction s) (auto simp: sublist_Cons_right)

lemma toUpperCase_append: "toUpperCase (a @ b) = toUpperCase a @ toUpperCase b"
  by (simp add: toUpperCase_def)

lemma toUpperCase_header:
  "toUpperCase (str ''-----BEGIN CERTIFICATE-----'')
     = str ''-----BEGIN '' @ str ''CERTIFICATE'' @ str ''-----''"
  by (simp add: toUpperCase_def upperUnit_def str_def)

lemma header_gives_keyword:
  assumes "str_includes txt (str ''-----BEGIN CERTIFICATE-----'')"
  shows "str_includes (toUpperCase txt) (str ''CERTIFICATE'')"
proof -
  from assms obtain a b where "txt = a @ str ''-----BEGIN CERTIFICATE-----'' @ b"
    by (auto simp: str_includes_sublist sublist_def)
  then have "toUpperCase txt
      = (toUpperCase a @ str ''-----BEGIN '') @ str ''CERTIFICATE''
        @ (str ''-----'' @ toUpperCase b)"
    by (simp only: toUpperCase_append toUpperCase_header append_assoc)
  then show ?thesis
    unfolding str_includes_sublist sublist_def by blast
qed

lemma detectContentType_range:
  "d \<in> set (detectContentType txt) \<Longrightarrow> 0 \<le> match d \<and> match d \<le> 1"
  by (auto simp: detectContentType_def typeDef_def Let_def split: if_splits)

text \<open>Each of the six literal lists is already in descending order: the sort keeps it.\<close>

lemma detectContentType_sorted:
  "sort_key (\<lambda>d. - match d) (detectContentType txt) = detectContentType txt"
  by (simp add: detectContentType_def typeDef_def Let_def)

lemma mockTypes_sorted: "sorted_wrt (\<lambda>a b. match a \<ge> match b) (mockTypes der)"
proof -
  have "sorted (map (\<lambda>d. - match d) (mockTypes der))"
    unfolding mockTypes_def by (rule sorted_sort_key)
  then show ?thesis by (simp add: sorted_map)
qed

text \<open>
  C9. For every input text the ranked list of guesses is in descending order of
  confidence and every confidence lies in \<open>[0, 1]\<close>; for an input that contains the
  armor header \<open>-----BEGIN CERTIFICATE-----\<close> the first label is
  \<open>X.509 Certificate\<close>; and the decode call returns its result with the structure
  computed from the input alone, whether or not the guess is asked for.
\<close>

theorem content_type_guess:
  "sorted_wrt (\<lambda>a b. match a \<ge> match b) (mockTypes der)
   \<and> list_all (\<lambda>d. 0 \<le> match d \<and> match d \<le> 1) (mockTypes der)
   \<and> (str_includes der (str ''-----BEGIN CERTIFICATE-----'')
        \<longrightarrow> mockTypes der \<noteq> [] \<and> description (hd (mockTypes der)) = ''X.509 Certificate'')
   \<and> (\<exists>r. decode L wantHex wantDef der = Inr r \<and> structure r = generateASN1Structure L der
          \<and> definitions r = (if wantDef then Some (mockTypes der) else None))"
proof (intro conjI impI)
  show "sorted_wrt (\<lambda>a b. match a \<ge> match b) (mockTypes der)" by (rule mockTypes_sorted)
  show "list_all (\<lambda>d. 0 \<le> match d \<and> match d \<le> 1) (mockTypes der)"
    unfolding list_all_iff mockTypes_def using detectContentType_range by auto
  show "\<exists>r. decode L wantHex wantDef der = Inr r \<and> structure r = generateASN1Structure L der
          \<and> definitions r = (if wantDef then Some (mockTypes der) else None)"
    by (simp add: decode_def)
next
  assume "str_includes der (str ''-----BEGIN CERTIFICATE-----'')"
  then have kw: "str_includes (toUpperCase der) (str ''CERTIFICATE'')"
    by (rule header_gives_keyword)
  have eq: "mockTypes der = [typeDef ''X.509 Certificate'' (95 / 100),
            typeDef ''PKCS#7/CMS Signature'' (20 / 100),
            typeDef ''PKCS#8 Private Key'' (10 / 100)]"
    unfolding mockTypes_def detectContentType_sorted
    using kw by (simp add: detectContentType_def)
  show "mockTypes der \<noteq> []" by (simp add: eq)
  show "description (hd (mockTypes der)) = ''X.509 Certificate''"
    by (simp add: eq typeDef_def)
qed

lemma examplePem_header: "str_includes examplePem (str ''-----BEGIN CERTIFICATE-----'')"
  by (simp add: examplePem_def str_def)

theorem content_type_guess_witness:
  "str_includes examplePem (str ''-----BEGIN CERTIFICATE-----'')
   \<and> description (hd (mockTypes examplePem)) = ''X.509 Certificate''"
  using content_type_guess [of examplePem exampleLib True True] examplePem_header by simp

subsection \<open>Byte normalization\<close>

lemma showNat_digit: "n < 10 \<Longrightarrow> showNat n = [of_nat (48 + n)]"
  by (subst showNat.simps) simp

lemma dashes: "str ''-----'' = [0x2D, 0x2D, 0x2D, 0x2D, 0x2D]"
  by (simp add: str_def)

lemma byte_of_nat_mod: "(of_nat (n mod 256) :: byte) = of_nat n"
  by (simp add: word_of_nat_eq_iff take_bit_eq_mod)

lemma low_eight_bits: "(ucast (u :: codeunit) :: byte) = of_nat (unat u mod 256)"
  unfolding byte_of_nat_mod by simp

text \<open>
  The armor expression matches at the start of a text exactly when the text starts with
  the keyword, a non-empty run without a dash and five dashes; the match ends there.
\<close>

lemma matchArmorAt_run:
  assumes "run \<noteq> []" and "0x2D \<notin> set run"
  shows "matchArmorAt kw (kw @ run @ str ''-----'' @ rest)
         = Some (length kw + length run + 5)"
proof -
  have t: "takeWhile (\<lambda>c. c \<noteq> 0x2D) (run @ str ''-----'' @ rest) = run"
    using assms(2) by (auto simp: dashes takeWhile_tail)
  have u: "dropWhile (\<lambda>c. c \<noteq> 0x2D) (run @ str ''-----'' @ rest) = str ''-----'' @ rest"
    using assms(2) by (auto simp: dashes dropWhile_append3)
  show ?thesis
    unfolding matchArmorAt_def by (simp add: t u assms(1))
qed

lemma matchArmorAt_iff:
  "matchArmorAt kw s = Some n
     \<longleftrightarrow> (\<exists>run rest. s = kw @ run @ str ''-----'' @ rest \<and> run \<noteq> [] \<and> 0x2D \<notin> set run
            \<and> n = length kw + length run + 5)"
proof
  assume m: "matchArmorAt kw s = Some n"
  then have p: "prefix kw s"
    by (simp add: matchArmorAt_def split: if_splits)
  define r where "r = drop (length kw) s"
  define run where "run = takeWhile (\<lambda>c. c \<noteq> 0x2D) r"
  define after where "after = dropWhile (\<lambda>c. c \<noteq> 0x2D) r"
  from p have s: "s = kw @ r"
    by (auto simp: r_def prefix_def)
  from m p have c: "run \<noteq> []" "prefix (str ''-----'') after" "n = length kw + length run + 5"
    by (simp_all add: matchArmorAt_def Let_def r_def run_def after_def split: if_splits)
  from c(2) obtain rest where a: "after = str ''-----'' @ rest"
    by (auto simp: prefix_def)
  have "r = run @ after"
    by (simp add: run_def after_def)
  with s a have "s = kw @ run @ str ''-----'' @ rest"
    by simp
  moreover have "0x2D \<notin> set run"
    unfolding run_def by (auto dest: set_takeWhileD)
  ultimately show "\<exists>run rest. s = kw @ run @ str ''-----'' @ rest \<and> run \<noteq> [] \<and> 0x2D \<notin> set run
            \<and> n = length kw + length run + 5"
    using c by blast
next
  assume "\<exists>run rest. s = kw @ run @ str ''-----'' @ rest \<and> run \<noteq> [] \<and> 0x2D \<notin> set run
            \<and> n = length kw + length run + 5"
  then obtain run rest where s: "s = kw @ run @ str ''-----'' @ rest" and r: "run \<noteq> []"
    and d: "0x2D \<notin> set run" and n: "n = length kw + length run + 5"
    by blast
  show "matchArmorAt kw s = Some n"
    unfolding s n using r d by (rule matchArmorAt_run)
qed

text \<open>The replacement removes the leftmost match, and nothing when there is none.\<close>

lemma removeArmor_leftmost:
  "i < length s \<Longrightarrow> \<forall>j<i. matchArmorAt kw (drop j s) = None
     \<Longrightarrow> matchArmorAt kw (drop i s) = Some n
     \<Longrightarrow> removeArmor kw s = take i s @ drop (i + n) s"
proof (induction s arbitrary: i)
  case Nil
  then show ?case by simp
next
  case (Cons c cs)
  show ?case
  proof (cases i)
    case 0
    with Cons.prems show ?thesis by simp
  next
    case (Suc k)
    with Cons.prems have none: "matchArmorAt kw (c # cs) = None"
      by (metis drop0 zero_less_Suc)
    from Suc Cons.prems have k: "k < length cs" by simp
    from Suc Cons.prems have a: "\<forall>j<k. matchArmorAt kw (drop j cs) = None"
      by (metis Suc_less_eq drop_Suc_Cons)
    from Suc Cons.prems have m: "matchArmorAt kw (drop k cs) = Some n" by simp
    from Cons.IH [OF k a m] none Suc show ?thesis by simp
  qed
qed

lemma removeArmor_none:
  "\<forall>j<length s. matchArmorAt kw (drop j s) = None \<Longrightarrow> removeArmor kw s = s"
proof (induction s)
  case Nil
  then show ?case by simp
next
  case (Cons c cs)
  then have none: "matchArmorAt kw (c # cs) = None"
    by (metis drop0 length_greater_0_conv list.distinct(1))
  from Cons.prems have "\<forall>j<length cs. matchArmorAt kw (drop j cs) = None"
    by (metis Suc_less_eq drop_Suc_Cons length_Cons)
  with Cons.IH none show ?case by simp
qed

text \<open>A match starts with a dash, so a run without a dash is stepped over.\<close>

lemma removeArmor_skip:
  "0x2D \<notin> set pre \<Longrightarrow> removeArmor (0x2D # kw) (pre @ s) = pre @ removeArmor (0x2D # kw) s"
  by (induction pre) (auto simp: matchArmorAt_def)

lemma drop_run: "drop (length kw + length run + 5) (kw @ run @ str ''-----'' @ rest) = rest"
  by (simp add: dashes)

lemma removeArmor_at_start:
  assumes "run \<noteq> []" and "0x2D \<notin> set run"
  shows "removeArmor kw (kw @ run @ str ''-----'' @ rest) = rest"
proof -
  let ?s = "kw @ run @ str ''-----'' @ rest"
  let ?n = "length kw + length run + 5"
  have l: "0 < length ?s"
    using assms(1) by simp
  have none: "\<forall>j<0. matchArmorAt kw (drop j ?s) = None"
    by simp
  have m: "matchArmorAt kw (drop 0 ?s) = Some ?n"
    unfolding drop_0 using assms by (rule matchArmorAt_run)
  have "removeArmor kw ?s = take 0 ?s @ drop (0 + ?n) ?s"
    using l none m by (rule removeArmor_leftmost)
  also have "\<dots> = drop ?n ?s"
    by simp
  also have "\<dots> = rest"
    by (rule drop_run)
  finally show ?thesis .
qed

text \<open>
  The usual PEM text, one block whose labels and body have no dash: both armor lines go
  and the body is left, without its whitespace.
\<close>

lemma armorBody_single_block:
  assumes "label \<noteq> []" and "0x2D \<notin> set label" and "0x2D \<notin> set body"
    and "label' \<noteq> []" and "0x2D \<notin> set label'"
  shows "armorBody (str ''-----BEGIN'' @ label @ str ''-----'' @ body
                     @ str ''-----END'' @ label' @ str ''-----'')
         = filter (\<lambda>u. \<not> isSpace u) body"
proof -
  let ?tail = "body @ str ''-----END'' @ label' @ str ''-----''"
  have r1: "removeArmor (str ''-----BEGIN'') (str ''-----BEGIN'' @ label @ str ''-----'' @ ?tail)
              = ?tail"
    using assms(1,2) by (rule removeArmor_at_start)
  have "removeArmor (str ''-----END'') (str ''-----END'' @ label' @ str ''-----'' @ []) = []"
    using assms(4,5) by (rule removeArmor_at_start)
  then have r2: "removeArmor (str ''-----END'') (str ''-----END'' @ label' @ str ''-----'') = []"
    by simp
  have k: "str ''-----END'' = 0x2D # str ''----END''"
    by (simp add: str_def)
  have "removeArmor (0x2D # str ''----END'') (body @ str ''-----END'' @ label' @ str ''-----'')
          = body @ removeArmor (0x2D # str ''----END'') (str ''-----END'' @ label' @ str ''-----'')"
    using assms(3) by (rule removeArmor_skip)
  then have "removeArmor (str ''-----END'') ?tail
          = body @ removeArmor (str ''-----END'') (str ''-----END'' @ label' @ str ''-----'')"
    unfolding k [symmetric] .
  then have r3: "removeArmor (str ''-----END'') ?tail = body"
    unfolding r2 by simp
  show ?thesis
    unfolding armorBody_def r1 r3 ..
qed

lemma examplePem_trim: "trim examplePem = examplePem"
  by (simp add: examplePem_def newline_def trim_def isSpace_def str_def)

lemma examplePem_armor: "hasArmor examplePem"
  by (simp add: examplePem_def newline_def hasArmor_def str_def)

lemma examplePem_stripped:
  "removeArmor (str ''-----END'') (removeArmor (str ''-----BEGIN'') examplePem)
     = newline @ str ''MAMCAQU='' @ newline"
  by (simp add: examplePem_def newline_def matchArmorAt_def str_def)

lemma example_base64_bytes:
  "exampleBase64Decode (str ''MAMCAQU='') = Inr [0x30, 0x03, 0x02, 0x01, 0x05]"
  by (simp add: exampleBase64Decode_def ignored_def b64Value_def str_def)

text \<open>
  Only the leftmost armor line of each kind goes. In a text of two blocks the armor of the
  second one stays; a label with a dash in it is not matched at all.
\<close>

lemma examplePemBundle_stripped:
  "removeArmor (str ''-----END'') (removeArmor (str ''-----BEGIN'') examplePemBundle)
     = newline @ str ''MAMCAQU='' @ newline @ newline
       @ str ''-----BEGIN CERTIFICATE-----'' @ newline @ str ''MAMCAQU='' @ newline
       @ str ''-----END CERTIFICATE-----''"
  by (simp add: examplePemBundle_def examplePem_def newline_def matchArmorAt_def str_def)

lemma dashed_label_stays:
  "armorBody (str ''-----BEGIN X-Y-----'' @ newline @ str ''TQ=='' @ newline
              @ str ''-----END X-Y-----'')
     = str ''-----BEGINX-Y-----TQ==-----ENDX-Y-----''"
  by (simp add: armorBody_def newline_def matchArmorAt_def isSpace_def str_def)

text \<open>
  C3, as stated: byte normalization produces a byte sequence for every input text. The
  text \<open>abc\<close> consists of hex digits, so it goes to the hex decoder; the decoder throws
  on the unpaired digit and nothing catches it.
\<close>

theorem normalization_may_throw_counterexample:
  "getBytesFromData exampleLib (str ''abc'')
     = Inl (ThrownString (str ''Hex encoding incomplete: 4 bits missing''))"
  by (simp add: getBytesFromData_def exampleLib_def trim_def isSpace_def hasArmor_def looksHex_def
      isHexDigit_def exampleHexDecode_def hexValue_def ignored_def str_def)

text \<open>
  C3, amended: byte normalization chooses one decoding by the form of the trimmed text,
  in the order PEM armor, hex, Base64. A text in which both \<open>-----BEGIN\<close> and \<open>-----END\<close>
  occur is Base64-decoded after three removals: the leftmost run made of \<open>-----BEGIN\<close>,
  one or more characters other than a dash and five dashes, if there is such a run;
  then, in what is left, the leftmost such run with \<open>END\<close>; then every whitespace
  character. Nothing else is removed. Otherwise a non-empty text of hex digits and
  whitespace only is hex-decoded. Otherwise the text is Base64-decoded, and exactly when
  that throws the result has one byte for each UTF-16 code unit of the trimmed text, the
  low eight bits of the code unit. Normalization throws exactly when the decoder of the
  armored or of the hex case throws; in every other case it produces a byte sequence.
\<close>

theorem normalization_order:
  "(hasArmor (trim data)
      \<longrightarrow> getBytesFromData L data
          = Base64_decode L
              (filter (\<lambda>u. \<not> isSpace u)
                 (removeArmor (str ''-----END'')
                    (removeArmor (str ''-----BEGIN'') (trim data)))))
   \<and> (\<not> hasArmor (trim data) \<and> looksHex (trim data)
      \<longrightarrow> getBytesFromData L data = Hex_decode L (trim data))
   \<and> (\<not> hasArmor (trim data) \<and> \<not> looksHex (trim data) \<and> Base64_decode L (trim data) = Inr bytes
      \<longrightarrow> getBytesFromData L data = Inr bytes)
   \<and> (\<not> hasArmor (trim data) \<and> \<not> looksHex (trim data) \<and> Base64_decode L (trim data) = Inl e
      \<longrightarrow> getBytesFromData L data = Inr (map (\<lambda>u. of_nat (unat u mod 256)) (trim data)))
   \<and> ((\<exists>e'. getBytesFromData L data = Inl e')
      \<longleftrightarrow> (hasArmor (trim data) \<and> (\<exists>e'. Base64_decode L (armorBody (trim data)) = Inl e'))
          \<or> (\<not> hasArmor (trim data) \<and> looksHex (trim data)
              \<and> (\<exists>e'. Hex_decode L (trim data) = Inl e')))
   \<and> (hasArmor t \<longleftrightarrow> sublist (str ''-----BEGIN'') t \<and> sublist (str ''-----END'') t)
   \<and> (looksHex t \<longleftrightarrow> t \<noteq> [] \<and> (\<forall>u \<in> set t. isHexDigit u \<or> isSpace u))
   \<and> (i < length s \<and> (\<forall>j<i. matchArmorAt kw (drop j s) = None)
        \<and> matchArmorAt kw (drop i s) = Some n
      \<longrightarrow> removeArmor kw s = take i s @ drop (i + n) s)
   \<and> ((\<forall>j<length s. matchArmorAt kw (drop j s) = None) \<longrightarrow> removeArmor kw s = s)
   \<and> (matchArmorAt kw s = Some n
      \<longleftrightarrow> (\<exists>run rest. s = kw @ run @ str ''-----'' @ rest \<and> run \<noteq> [] \<and> 0x2D \<notin> set run
             \<and> n = length kw + length run + 5))"
proof -
  have dispatch:
    "(hasArmor (trim data)
      \<longrightarrow> getBytesFromData L data
          = Base64_decode L
              (filter (\<lambda>u. \<not> isSpace u)
                 (removeArmor (str ''-----END'')
                    (removeArmor (str ''-----BEGIN'') (trim data)))))
     \<and> (\<not> hasArmor (trim data) \<and> looksHex (trim data)
      \<longrightarrow> getBytesFromData L data = Hex_decode L (trim data))
     \<and> (\<not> hasArmor (trim data) \<and> \<not> looksHex (trim data) \<and> Base64_decode L (trim data) = Inr bytes
      \<longrightarrow> getBytesFromData L data = Inr bytes)
     \<and> (\<not> hasArmor (trim data) \<and> \<not> looksHex (trim data) \<and> Base64_decode L (trim data) = Inl e
      \<longrightarrow> getBytesFromData L data = Inr (map (\<lambda>u. of_nat (unat u mod 256)) (trim data)))"
    by (simp add: getBytesFromData_def armorBody_def low_eight_bits Let_def)
  have throws:
    "(\<exists>e'. getBytesFromData L data = Inl e')
      \<longleftrightarrow> (hasArmor (trim data) \<and> (\<exists>e'. Base64_decode L (armorBody (trim data)) = Inl e'))
          \<or> (\<not> hasArmor (trim data) \<and> looksHex (trim data)
              \<and> (\<exists>e'. Hex_decode L (trim data) = Inl e'))"
    by (auto simp: getBytesFromData_def Let_def split: sum.splits)
  have forms:
    "(hasArmor t \<longleftrightarrow> sublist (str ''-----BEGIN'') t \<and> sublist (str ''-----END'') t)
     \<and> (looksHex t \<longleftrightarrow> t \<noteq> [] \<and> (\<forall>u \<in> set t. isHexDigit u \<or> isSpace u))"
    by (simp add: hasArmor_def looksHex_def str_includes_sublist list_all_iff)
  have removal:
    "(i < length s \<and> (\<forall>j<i. matchArmorAt kw (drop j s) = None)
        \<and> matchArmorAt kw (drop i s) = Some n
      \<longrightarrow> removeArmor kw s = take i s @ drop (i + n) s)
     \<and> ((\<forall>j<length s. matchArmorAt kw (drop j s) = None) \<longrightarrow> removeArmor kw s = s)"
    using removeArmor_leftmost [of i s kw n] removeArmor_none [of s kw] by blast
  note parts = dispatch throws forms removal matchArmorAt_iff [of kw s n]
  show ?thesis
    by (intro conjI; insert parts; (elim conjE)?; assumption)
qed

lemma euro_form:
  "trim [0x61, 0x20AC, 0x62] = [0x61, 0x20AC, 0x62] \<and> \<not> hasArmor [0x61, 0x20AC, 0x62]
   \<and> \<not> looksHex [0x61, 0x20AC, 0x62]
   \<and> exampleBase64Decode [0x61, 0x20AC, 0x62]
       = Inl (ThrownString (str ''Illegal character at offset 1''))"
  by (simp add: trim_def isSpace_def hasArmor_def looksHex_def isHexDigit_def
      exampleBase64Decode_def b64Value_def ignored_def showNat_digit str_def)

lemma hex_form:
  "trim (str ''30 03 02 01 05'') = str ''30 03 02 01 05'' \<and> \<not> hasArmor (str ''30 03 02 01 05'')
   \<and> looksHex (str ''30 03 02 01 05'')
   \<and> exampleHexDecode (str ''30 03 02 01 05'') = Inr [0x30, 0x03, 0x02, 0x01, 0x05]"
  by (simp add: trim_def isSpace_def hasArmor_def looksHex_def isHexDigit_def
      exampleHexDecode_def hexValue_def ignored_def str_def)

lemma base64_form:
  "trim (str ''TQ=='') = str ''TQ=='' \<and> \<not> hasArmor (str ''TQ=='') \<and> \<not> looksHex (str ''TQ=='')
   \<and> exampleBase64Decode (str ''TQ=='') = Inr [0x4D]"
  by (simp add: trim_def isSpace_def hasArmor_def looksHex_def isHexDigit_def
      exampleBase64Decode_def b64Value_def ignored_def str_def)

theorem normalization_order_witness:
  "getBytesFromData exampleLib examplePem = Inr [0x30, 0x03, 0x02, 0x01, 0x05]
   \<and> getBytesFromData exampleLib (str ''30 03 02 01 05'') = Inr [0x30, 0x03, 0x02, 0x01, 0x05]
   \<and> getBytesFromData exampleLib (str ''TQ=='') = Inr [0x4D]
   \<and> getBytesFromData exampleLib [0x61, 0x20AC, 0x62] = Inr [0x61, 0xAC, 0x62]
   \<and> removeArmor (str ''-----BEGIN'') examplePem
       = newline @ str ''MAMCAQU='' @ newline @ str ''-----END CERTIFICATE-----''"
proof -
  have m: "matchArmorAt (str ''-----BEGIN'') (drop 0 examplePem) = Some 27"
    by (simp add: examplePem_def newline_def matchArmorAt_def str_def)
  have l: "0 < length examplePem"
    by (simp add: examplePem_def str_def)
  have f: "filter (\<lambda>u. \<not> isSpace u)
             (removeArmor (str ''-----END'') (removeArmor (str ''-----BEGIN'') examplePem))
           = str ''MAMCAQU=''"
    unfolding examplePem_stripped by (simp add: newline_def isSpace_def str_def)
  have b: "Base64_decode exampleLib = exampleBase64Decode"
    by (simp add: exampleLib_def)
  have pem: "getBytesFromData exampleLib examplePem = Inr [0x30, 0x03, 0x02, 0x01, 0x05]"
    using normalization_order [of examplePem exampleLib]
    by (simp add: examplePem_trim examplePem_armor f b example_base64_bytes)
  have h: "Hex_decode exampleLib = exampleHexDecode"
    by (simp add: exampleLib_def)
  have hex: "getBytesFromData exampleLib (str ''30 03 02 01 05'')
               = Inr [0x30, 0x03, 0x02, 0x01, 0x05]"
    using normalization_order [of "str ''30 03 02 01 05''" exampleLib] hex_form
    by (simp add: h)
  have b64: "getBytesFromData exampleLib (str ''TQ=='') = Inr [0x4D]"
    using normalization_order [of "str ''TQ==''" exampleLib "[0x4D]"] base64_form
    by (simp add: b)
  have raw: "getBytesFromData exampleLib [0x61, 0x20AC, 0x62] = Inr [0x61, 0xAC, 0x62]"
    using normalization_order [of "[0x61, 0x20AC, 0x62]" exampleLib _
        "ThrownString (str ''Illegal character at offset 1'')"] euro_form
    by (simp add: b)
  have cut: "removeArmor (str ''-----BEGIN'') examplePem
       = newline @ str ''MAMCAQU='' @ newline @ str ''-----END CERTIFICATE-----''"
    using normalization_order [of _ _ _ _ _ 0 examplePem "str ''-----BEGIN''" 27] m l
    by (simp add: examplePem_def newline_def str_def)
  from pem hex b64 raw cut show ?thesis by simp
qed

subsection \<open>Base64 output\<close>

lemma example_hex_bytes:
  "getBytesFromData exampleLib (str ''30 03 02 01 05'') = Inr [0x30, 0x03, 0x02, 0x01, 0x05]"
  by (simp add: getBytesFromData_def exampleLib_def trim_def isSpace_def hasArmor_def looksHex_def
      isHexDigit_def exampleHexDecode_def hexValue_def ignored_def str_def)

text \<open>The encoder on the test vectors of RFC 4648, and the length of its output.\<close>

lemma btoa_rfc4648_vectors:
  "btoa ''f'' = str ''Zg=='' \<and> btoa ''fo'' = str ''Zm8='' \<and> btoa ''foo'' = str ''Zm9v''
   \<and> btoa ''foob'' = str ''Zm9vYg=='' \<and> btoa ''fooba'' = str ''Zm9vYmE=''
   \<and> btoa ''foobar'' = str ''Zm9vYmFy''"
  by (simp add: btoa_def b64Char_def b64Alphabet_def)

lemma length_b64Groups: "length (b64Groups bs) = 4 * ((length bs + 2) div 3)"
proof (induction bs rule: b64Groups.induct)
  case (4 a b c rest)
  have "(length (a # b # c # rest) + 2) div 3 = (length rest + 2) div 3 + 1" by simp
  with 4 show ?case by simp
qed simp_all

text \<open>
  C10. When the normalized byte buffer has 10240 bytes or more, the Base64 text returned
  for export is empty; for every shorter buffer it is the Base64 encoding of the whole
  buffer.
\<close>

theorem generateBase64_cap:
  assumes "getBytesFromData L data = Inr bytes"
  shows "maxLength = 10240
     \<and> generateBase64 L data
         = (if 10240 \<le> length bytes then [] else btoa (map fromCharCode bytes))"
  using assms by (auto simp: generateBase64_def maxLength_def)

theorem generateBase64_cap_witness:
  "getBytesFromData exampleLib (str ''30 03 02 01 05'') = Inr [0x30, 0x03, 0x02, 0x01, 0x05]
   \<and> generateBase64 exampleLib (str ''30 03 02 01 05'') = str ''MAMCAQU=''"
  using generateBase64_cap [OF example_hex_bytes]
  by (simp add: example_hex_bytes btoa_def fromCharCode_def b64Char_def b64Alphabet_def)

subsection \<open>Parse failures\<close>

lemma truncated_hex_bytes:
  "getBytesFromData exampleLib (str ''30 05 02 01 05'') = Inr [0x30, 0x05, 0x02, 0x01, 0x05]"
  by (simp add: getBytesFromData_def exampleLib_def trim_def isSpace_def hasArmor_def looksHex_def
      isHexDigit_def exampleHexDecode_def hexValue_def ignored_def str_def)

lemma showNat_5: "showNat 5 = str ''5''"
  using showNat_digit [of 5] by (simp add: str_def)

lemma truncated_container_parts:
  "exampleDecodePretty [0x30, 0x05, 0x02, 0x01, 0x05]
     = Inl (ErrorObject
         (str ''Container at offset 2 has a length of '' @ str ''5''
          @ str '', which is past the end of the stream''))"
  by (simp add: exampleDecodePretty_def showNat_5)

lemma truncated_container:
  "decodePretty exampleLib [0x30, 0x05, 0x02, 0x01, 0x05]
     = Inl (ErrorObject
         (str ''Container at offset 2 has a length of 5, which is past the end of the stream''))"
  by (simp add: exampleLib_def truncated_container_parts str_def)

text \<open>
  C4, as stated: when the TLV parse fails the decode call aborts and surfaces the
  failure to its caller. For the input \<open>30 05 02 01 05\<close>, whose bytes the ASN.1 decoder
  rejects, the call returns a result all the same: the structure field holds the error
  text, and the hex dump and the Base64 text are filled in.
\<close>

theorem parse_failure_does_not_abort_counterexample:
  "decodePretty exampleLib [0x30, 0x05, 0x02, 0x01, 0x05]
     = Inl (ErrorObject
         (str ''Container at offset 2 has a length of 5, which is past the end of the stream''))
   \<and> decode exampleLib True False (str ''30 05 02 01 05'')
       = Inr \<lparr>content = str ''30 05 02 01 05'',
              structure = parseErrorText (ErrorObject
                (str ''Container at offset 2 has a length of 5, which is past the end of the stream'')),
              hexDump = Some (str ''30 05 02 01 05 ''),
              base64 = str ''MAUCAQU='',
              definitions = None\<rparr>"
proof -
  have s: "generateASN1Structure exampleLib (str ''30 05 02 01 05'')
             = parseErrorText (ErrorObject
                (str ''Container at offset 2 has a length of 5, which is past the end of the stream''))"
    by (simp add: generateASN1Structure_def truncated_hex_bytes truncated_container)
  have sh: "streamHexDump exampleLib = exampleHexDump" by (simp add: exampleLib_def)
  have h: "generateHexDump exampleLib (str ''30 05 02 01 05'') = str ''30 05 02 01 05 ''"
    unfolding generateHexDump_def truncated_hex_bytes sh
    by (simp add: maxHexLength_def exampleHexDump_def hexDigitChar_def str_def)
  have b: "generateBase64 exampleLib (str ''30 05 02 01 05'') = str ''MAUCAQU=''"
    by (simp add: generateBase64_def truncated_hex_bytes maxLength_def btoa_def fromCharCode_def
        b64Char_def b64Alphabet_def)
  show ?thesis by (simp add: truncated_container decode_def s h b)
qed

text \<open>
  C4, amended: when the bytes of the input normalize and the TLV parse of them fails,
  the decode call does not abort. It returns its usual result, in which the structure
  field is the text \<open>Parse Error:\<close> with the message of the thrown error and a fixed
  list of supported formats, never a partial tree; the hex dump, the Base64 text and the
  content-type guess are produced as for any other input. The text carries a byte offset
  only when the decoder's message does.
\<close>

theorem parse_failure_is_reported_in_structure:
  assumes "getBytesFromData L der = Inr bytes" and "decodePretty L bytes = Inl e"
  shows "decode L wantHex wantDef der
     = Inr \<lparr>content = der,
            structure = parseErrorText e,
            hexDump = (if wantHex then Some (generateHexDump L der) else None),
            base64 = (if length bytes < 10240 then btoa (map fromCharCode bytes) else []),
            definitions = (if wantDef then Some (mockTypes der) else None)\<rparr>"
  using assms by (simp add: decode_def generateASN1Structure_def generateBase64_def maxLength_def)

theorem parse_failure_is_reported_in_structure_witness:
  "decode exampleLib False False (str ''30 05 02 01 05'')
     = Inr \<lparr>content = str ''30 05 02 01 05'',
            structure = parseErrorText (ErrorObject
              (str ''Container at offset 2 has a length of 5, which is past the end of the stream'')),
            hexDump = None,
            base64 = str ''MAUCAQU='',
            definitions = None\<rparr>"
  using parse_failure_is_reported_in_structure
          [OF truncated_hex_bytes truncated_container, of False False]
  by (simp add: btoa_def fromCharCode_def b64Char_def b64Alphabet_def)

text \<open>
  When normalization itself throws, the structure field is the same kind of text, the
  hex dump field reports the error and the Base64 text is empty.
\<close>

lemma normalization_failure_is_reported:
  assumes "getBytesFromData L der = Inl e"
  shows "decode L True wantDef der
     = Inr \<lparr>content = der,
            structure = parseErrorText e,
            hexDump = Some (str ''Hex dump error: '' @ errorMessage e),
            base64 = [],
            definitions = (if wantDef then Some (mockTypes der) else None)\<rparr>"
  using assms
  by (simp add: decode_def generateASN1Structure_def generateHexDump_def generateBase64_def)

section \<open>Properties of the structure tree\<close>

subsection \<open>The end offset\<close>

lemma ceilLog2Div8_base: "n \<le> 1 \<Longrightarrow> ceilLog2Div8 n = 0"
  by (subst ceilLog2Div8.simps) (simp only: if_True)

lemma ceilLog2Div8_step:
  "\<not> n \<le> 1 \<Longrightarrow> ceilLog2Div8 n = 1 + ceilLog2Div8 ((n + 255) div 256)"
  by (subst ceilLog2Div8.simps) (simp only: if_False)

lemma div256_le: "((n::nat) + 255) div 256 \<le> K \<longleftrightarrow> n \<le> 256 * K"
proof -
  have "(n + 255) div 256 < Suc K \<longleftrightarrow> n + 255 < Suc K * 256"
    by (rule div_less_iff_less_mult) simp
  then show ?thesis by auto
qed

lemma div256_ge_one: "\<not> n \<le> 1 \<Longrightarrow> 1 \<le> ((n::nat) + 255) div 256"
  by (simp add: Suc_le_eq div_greater_zero_iff)

text \<open>The integer function is the least \<open>k\<close> with \<open>n \<le> 256^k\<close>.\<close>

lemma ceilLog2Div8_le_iff: "1 \<le> n \<Longrightarrow> ceilLog2Div8 n \<le> k \<longleftrightarrow> n \<le> 256 ^ k"
proof (induction k arbitrary: n)
  case 0
  then show ?case
    by (cases "n \<le> 1") (auto simp: ceilLog2Div8_base ceilLog2Div8_step)
next
  case (Suc k)
  show ?case
  proof (cases "n \<le> 1")
    case True
    have "(1::nat) \<le> 256 ^ Suc k" by simp
    with True have "n \<le> 256 ^ Suc k" by linarith
    with True show ?thesis by (simp add: ceilLog2Div8_base)
  next
    case False
    then have m: "1 \<le> (n + 255) div 256" by (rule div256_ge_one)
    have "ceilLog2Div8 n \<le> Suc k \<longleftrightarrow> ceilLog2Div8 ((n + 255) div 256) \<le> k"
      using False by (simp add: ceilLog2Div8_step)
    also have "\<dots> \<longleftrightarrow> (n + 255) div 256 \<le> 256 ^ k" by (rule Suc.IH[OF m])
    also have "\<dots> \<longleftrightarrow> n \<le> 256 * 256 ^ k" by (rule div256_le)
    finally show ?thesis by simp
  qed
qed

lemma log_ceiling_le_iff:
  assumes "1 \<le> n"
  shows "\<lceil>log 2 (real n) / 8\<rceil> \<le> int k \<longleftrightarrow> n \<le> 256 ^ k"
proof -
  have pos: "0 < real n" using assms by simp
  have p: "2 powr real (8 * k) = (2::real) ^ (8 * k)" by (rule powr_realpow) simp
  have "\<lceil>log 2 (real n) / 8\<rceil> \<le> int k \<longleftrightarrow> log 2 (real n) / 8 \<le> real k"
    by (simp add: ceiling_le_iff)
  also have "\<dots> \<longleftrightarrow> log 2 (real n) \<le> real (8 * k)" by auto
  also have "\<dots> \<longleftrightarrow> real n \<le> 2 powr real (8 * k)"
    using pos by (rule log_le_iff[rotated]) simp
  also have "\<dots> \<longleftrightarrow> real n \<le> real (256 ^ k)"
    unfolding p by (simp add: power_mult)
  also have "\<dots> \<longleftrightarrow> n \<le> 256 ^ k" by (rule of_nat_le_iff)
  finally show ?thesis .
qed

text \<open>
  \<open>ceilLog2Div8\<close> is the source expression \<open>Math.ceil(Math.log2(n) / 8)\<close> read over the
  real numbers.
\<close>

lemma ceilLog2Div8_log:
  assumes "1 \<le> n"
  shows "int (ceilLog2Div8 n) = \<lceil>log 2 (real n) / 8\<rceil>"
proof -
  define c where "c = \<lceil>log 2 (real n) / 8\<rceil>"
  have "0 \<le> log 2 (real n)" using assms by simp
  then have "(0::real) \<le> log 2 (real n) / 8" by simp
  then have "\<lceil>0::real\<rceil> \<le> c" unfolding c_def by (rule ceiling_mono)
  then have nonneg: "0 \<le> c" by simp
  have eq: "ceilLog2Div8 n \<le> k \<longleftrightarrow> c \<le> int k" for k
    unfolding c_def using assms by (simp only: ceilLog2Div8_le_iff log_ceiling_le_iff)
  have "c \<le> int (ceilLog2Div8 n)" using eq[of "ceilLog2Div8 n"] by simp
  moreover have "ceilLog2Div8 n \<le> nat c" using eq[of "nat c"] nonneg by simp
  then have "int (ceilLog2Div8 n) \<le> c" using nonneg by linarith
  ultimately show ?thesis unfolding c_def by simp
qed

lemma ceilLog2Div8_between:
  assumes "256 ^ j < n" and "n \<le> 256 ^ (j + 1)"
  shows "ceilLog2Div8 n = j + 1"
proof -
  have one: "1 \<le> n"
    using assms(1) by linarith
  have "ceilLog2Div8 n \<le> j + 1"
    using one assms(2) by (simp only: ceilLog2Div8_le_iff)
  moreover have "\<not> ceilLog2Div8 n \<le> j"
    using one assms(1) by (simp only: ceilLog2Div8_le_iff not_le)
  ultimately show ?thesis by linarith
qed


lemma byteEndOf_long:
  assumes "127 < N" and "256 ^ j < N" and "N \<le> 256 ^ (j + 1)" and "N \<le> 2 ^ 48"
    and "a \<le> 2 ^ 48"
  shows "byteEndOf (Exact a) (Exact N) = Exact (a + N + j + 3)"
proof -
  have c: "ceilLog2Div8 N = j + 1"
    using assms(2,3) by (rule ceilLog2Div8_between)
  have "(256::nat) ^ j < 256 ^ 6"
    using assms(2,4) by simp
  then have "j < 6"
    by (simp only: power_strict_increasing_iff) 
  then have "a + 1 + (j + 1 + 1) + N \<le> 2 ^ 53"
    using assms(4,5) by simp
  then have "toNumber (a + 1 + (j + 1 + 1) + N) = Exact (a + 1 + (j + 1 + 1) + N)"
    by (simp only: toNumber_def if_True)
  moreover have "a + 1 + (j + 1 + 1) + N = a + N + j + 3"
    by simp
  ultimately show ?thesis
    using assms(1,4) by (simp add: c)
qed


lemma byteEndOf_at_256:
  "byteEndOf (Exact 0) (Exact 256) = Exact 259 \<and> 0 + 1 + getLengthBytesCount 256 + 256 = 260"
proof -
  have "byteEndOf (Exact 0) (Exact 256) = Exact (0 + 256 + 0 + 3)"
    by (intro byteEndOf_long) simp_all
  then show ?thesis
    by (simp add: getLengthBytesCount_def)
qed

subsection \<open>The expressions that read a line\<close>












subsection \<open>The nodes of the tree\<close>















subsection \<open>Byte ranges of the nodes\<close>













section \<open>Properties of the hex dump view\<close>

lemma renderTokens_positions:
  "map currentBytePosition (renderTokens h k hexBytes) = [k ..< k + length hexBytes]"
proof -
  have "map currentBytePosition (renderTokens h k hexBytes)
          = map (\<lambda>p. fst p + k) (enumerate 0 hexBytes)"
    by (simp add: renderTokens_def renderToken_def split_def Let_def comp_def add.commute)
  also have "\<dots> = map (\<lambda>i. i + k) (map fst (enumerate 0 hexBytes))"
    by (simp only: map_map comp_def)
  also have "\<dots> = [k ..< k + length hexBytes]"
    by (simp add: map_add_upt add.commute)
  finally show ?thesis .
qed


















text \<open>
  A line in the format with an offset leaves the running index where it was: the
  statement that would advance it stands after the \<open>return\<close>. Two such rows are both
  numbered from 0.
\<close>

lemma offset_row_keeps_index:
  "hexMatch l = Some x \<Longrightarrow> snd (formatLine h k l) = k"
  by (auto simp: formatLine_def Let_def split: prod.splits)

lemma offset_line1:
  "hexMatch (str ''0000: 30 03  0.'') = Some (str ''0000'', str ''30 03 '', str ''0.'')"
  by (simp add: hexMatch_def tryLeadingSpace_def tryHexPart_def isHexDigit_def isSpace_def
      isLineTerminator_def upt_rec str_def)

lemma offset_line2:
  "hexMatch (str ''0010: 02 01  ..'') = Some (str ''0010'', str ''02 01 '', str ''..'')"
  by (simp add: hexMatch_def tryLeadingSpace_def tryHexPart_def isHexDigit_def isSpace_def
      isLineTerminator_def upt_rec str_def)

lemma hex_part_words:
  "filter (\<lambda>byte. length byte = 2) (splitWords (trim (str ''30 03 ''))) = [str ''30'', str ''03'']
   \<and> filter (\<lambda>byte. length byte = 2) (splitWords (trim (str ''02 01 ''))) = [str ''02'', str ''01'']"
  by (simp add: trim_def isSpace_def splitWords_def str_def)

lemma offset_lines_not_blank:
  "trim (str ''0000: 30 03  0.'') \<noteq> [] \<and> trim (str ''0010: 02 01  ..'') \<noteq> []"
  by (simp add: trim_def isSpace_def str_def)

lemma offsetDump_positions:
  "map currentBytePosition (dumpTokens h offsetDump) = [0, 1, 0, 1]"
proof -
  have l: "splitLines offsetDump = [str ''0000: 30 03  0.'', str ''0010: 02 01  ..'']"
    by (simp add: offsetDump_def newline_def str_def)
  have r1: "formatLine h k (str ''0000: 30 03  0.'')
              = (OffsetRow (str ''0000'') (renderTokens h k [str ''30'', str ''03'']) (str ''0.''), k)"
    for k
    by (simp add: formatLine_def offset_line1 offset_lines_not_blank hex_part_words)
  have r2: "formatLine h k (str ''0010: 02 01  ..'')
              = (OffsetRow (str ''0010'') (renderTokens h k [str ''02'', str ''01'']) (str ''..''), k)"
    for k
    by (simp add: formatLine_def offset_line2 offset_lines_not_blank hex_part_words)
  show ?thesis
    unfolding dumpTokens_def formatHexDump_def l
    by (simp add: r1 r2 renderTokens_positions)
qed


lemma exampleDump_is_the_dump:
  "streamHexDump exampleLib exampleBytes 0 (length exampleBytes) = Inr exampleDump"
  by (simp add: exampleLib_def exampleHexDump_def exampleBytes_def exampleDump_def newline_def
      hexDigitChar_def str_def)





end
